theory Spec2Isabelle
  imports Main
begin

section \<open>Errors\<close>

text \<open>
  Both services signal a missing record by raising
  \<^verbatim>\<open>HTTPException(status_code = 404, detail = ...)\<close>. Indexing a Python list out of
  range raises \<^verbatim>\<open>IndexError\<close>, and a request body that violates a \<^verbatim>\<open>Field\<close>
  constraint is rejected before the handler runs (\<^verbatim>\<open>RequestValidationError\<close>, HTTP 422).
  Every raise of the source is a value of this type.
\<close>

datatype error =
    HTTPException (status_code: int) (detail: string)
  | IndexError
  | RequestValidationError

section \<open>The Python list primitives the handlers use\<close>

text \<open>
  \<^verbatim>\<open>xs[i]\<close>: a negative index counts from the end; an index outside
  \<open>[-len(xs), len(xs))\<close> raises \<^verbatim>\<open>IndexError\<close>.
\<close>

definition py_index :: "'a list \<Rightarrow> int \<Rightarrow> error + 'a" where
  "py_index xs i =
     (let n = int (length xs);
          j = (if i < 0 then i + n else i)
      in if 0 \<le> j \<and> j < n then Inr (xs ! nat j) else Inl IndexError)"

text \<open>
  \<^verbatim>\<open>xs[start:stop]\<close> with the default step 1: each bound is moved into
  \<open>[0, len(xs)]\<close>, a negative bound counting from the end first; the slice is empty
  when the adjusted start is not below the adjusted stop. A slice never raises.
\<close>

definition adjust_index :: "int \<Rightarrow> int \<Rightarrow> int" where
  "adjust_index n i =
     (if i < 0 then (if i + n < 0 then 0 else i + n)
      else if n \<le> i then n else i)"

definition py_slice :: "'a list \<Rightarrow> int \<Rightarrow> int \<Rightarrow> 'a list" where
  "py_slice xs start stop =
     (let n = int (length xs);
          s = adjust_index n start;
          e = adjust_index n stop
      in if s < e then take (nat (e - s)) (drop (nat s) xs) else [])"

text \<open>
  \<^verbatim>\<open>xs.pop(index)\<close> for an index that \<^verbatim>\<open>enumerate\<close> produced (so never negative):
  the element at that position is removed and returned, the others keep their order.
\<close>

definition py_pop :: "'a list \<Rightarrow> nat \<Rightarrow> error + ('a \<times> 'a list)" where
  "py_pop xs index =
     (if index < length xs then Inr (xs ! index, take index xs @ drop (Suc index) xs)
      else Inl IndexError)"

text \<open>
  \<^verbatim>\<open>max(xs, default = d)\<close> on integers: the default for an empty list, otherwise
  the running maximum of a left-to-right pass that starts from the first element.
\<close>

fun max_loop :: "int \<Rightarrow> int list \<Rightarrow> int" where
  "max_loop maxitem [] = maxitem"
| "max_loop maxitem (x # xs) = max_loop (if maxitem < x then x else maxitem) xs"

definition py_max_default :: "int list \<Rightarrow> int \<Rightarrow> int" where
  "py_max_default xs d = (case xs of [] \<Rightarrow> d | x # rest \<Rightarrow> max_loop x rest)"

section \<open>The item service\<close>

text \<open>
  \<^verbatim>\<open>class Item(BaseModel): text: str = None; is_done: bool = False\<close>.
  The store is the module-level list \<^verbatim>\<open>items\<close>, initially empty; every handler takes
  the current list and, when it mutates it, returns the new one beside its response.
\<close>

record item =
  "text" :: "string option"
  is_done :: bool

definition items_init :: "item list" where
  "items_init = []"

text \<open>
  \<^verbatim>\<open>POST /items\<close>: \<^verbatim>\<open>items.append(item); return items\<close>. The result is the pair of
  the response and the store after the call.
\<close>

definition create_item :: "item list \<Rightarrow> item \<Rightarrow> item list \<times> item list" where
  "create_item items item = (let items' = items @ [item] in (items', items'))"

text \<open>\<^verbatim>\<open>GET /items?limit=N\<close>: \<^verbatim>\<open>return items[0:limit]\<close>, with \<open>limit\<close> defaulting to 10.\<close>

definition list_items :: "item list \<Rightarrow> int \<Rightarrow> item list" where
  "list_items items limit = py_slice items 0 limit"

definition list_items_default :: "item list \<Rightarrow> item list" where
  "list_items_default items = list_items items 10"

text \<open>
  \<^verbatim>\<open>GET /items/{item_id}\<close>. The source names this handler \<^verbatim>\<open>create_item\<close> a second
  time (line 27); it is called \<open>get_item\<close> here since the two cannot share a name.
  The only test is \<^verbatim>\<open>item_id < len(items)\<close>; the read \<^verbatim>\<open>items[item_id]\<close> is Python
  indexing.
\<close>

definition get_item :: "item list \<Rightarrow> int \<Rightarrow> error + item" where
  "get_item items item_id =
     (if item_id < int (length items) then py_index items item_id
      else Inl (HTTPException 404 ''Item not found''))"

section \<open>The todo service\<close>

text \<open>\<^verbatim>\<open>class Priority(IntEnum): low = 3; medium = 2; high = 1\<close>.\<close>

datatype Priority = low | medium | high

fun Priority_value :: "Priority \<Rightarrow> int" where
  "Priority_value low = 3"
| "Priority_value medium = 2"
| "Priority_value high = 1"

text \<open>
  \<^verbatim>\<open>TodoBase\<close> holds the three payload fields; \<^verbatim>\<open>TodoCreate\<close> adds nothing to it and
  \<^verbatim>\<open>Todo\<close> adds \<^verbatim>\<open>todo_id\<close>. The fields of \<^verbatim>\<open>TodoUpdate\<close> are the same three, each
  optional; they carry a prime since a record field name is a constant.
\<close>

record TodoBase =
  todo_name :: string
  todo_description :: string
  priority :: Priority

type_synonym TodoCreate = TodoBase

record Todo = TodoBase +
  todo_id :: int

record TodoUpdate =
  todo_name' :: "string option"
  todo_description' :: "string option"
  priority' :: "Priority option"

text \<open>The store \<^verbatim>\<open>all_todos\<close> as the module seeds it at start-up.\<close>

definition all_todos :: "Todo list" where
  "all_todos =
     [\<lparr>todo_name = ''Exercise'', todo_description = ''Gym'', priority = medium, todo_id = 1\<rparr>,
      \<lparr>todo_name = ''Read'', todo_description = ''Library'', priority = low, todo_id = 2\<rparr>,
      \<lparr>todo_name = ''Shop'', todo_description = ''Mall'', priority = high, todo_id = 3\<rparr>,
      \<lparr>todo_name = ''Study'', todo_description = ''College'', priority = medium, todo_id = 4\<rparr>,
      \<lparr>todo_name = ''Meditate'', todo_description = ''Session'', priority = low, todo_id = 5\<rparr>]"

subsection \<open>Request validation of \<^verbatim>\<open>TodoCreate\<close>\<close>

text \<open>
  The handler \<^verbatim>\<open>create_todo\<close> only runs on a body that passed the declarations of
  \<^verbatim>\<open>TodoBase\<close> (lines 14 to 17): \<^verbatim>\<open>todo_name\<close> is required with
  \<^verbatim>\<open>min_length = 3, max_length = 512\<close>, \<^verbatim>\<open>todo_description\<close> is required, and
  \<^verbatim>\<open>priority\<close> defaults to \<^verbatim>\<open>Priority.low\<close>. A body is modelled after type decoding:
  a field is absent (\<open>None\<close>) or holds a value of its declared type. A \<open>char\<close> of a
  name stands for one character of the Python string, which is what the length
  constraints count.
\<close>

record TodoCreate_body =
  body_todo_name :: "string option"
  body_todo_description :: "string option"
  body_priority :: "Priority option"

definition check_length :: "nat \<Rightarrow> nat \<Rightarrow> string \<Rightarrow> bool" where
  "check_length min_length max_length s = (min_length \<le> length s \<and> length s \<le> max_length)"

definition validate_TodoCreate :: "TodoCreate_body \<Rightarrow> error + TodoCreate" where
  "validate_TodoCreate body =
     (case body_todo_name body of
        None \<Rightarrow> Inl RequestValidationError
      | Some name \<Rightarrow>
          if \<not> check_length 3 512 name then Inl RequestValidationError
          else
            (case body_todo_description body of
               None \<Rightarrow> Inl RequestValidationError
             | Some description \<Rightarrow>
                 Inr \<lparr>todo_name = name, todo_description = description,
                      priority = (case body_priority body of None \<Rightarrow> low | Some p \<Rightarrow> p)\<rparr>))"

subsection \<open>Handlers\<close>

text \<open>
  A handler that can raise returns its outcome (the error or the response) together
  with the store as it stands when the handler is left, so that a write made before a
  raise would show.
\<close>

text \<open>
  \<^verbatim>\<open>POST /todos\<close>: the new id is
  \<^verbatim>\<open>max([t.todo_id for t in all_todos], default = 0) + 1\<close>. The handler is given a
  \<^verbatim>\<open>TodoCreate\<close> that passed validation, so building the \<^verbatim>\<open>Todo\<close> from its fields
  raises nothing, and the handler has no failure path of its own.
\<close>

definition create_todo :: "Todo list \<Rightarrow> TodoCreate \<Rightarrow> Todo \<times> Todo list" where
  "create_todo todos todo =
     (let new_todo_id = py_max_default (map todo_id todos) 0 + 1;
          new_todo = \<lparr>todo_name = todo_name todo,
                      todo_description = todo_description todo,
                      priority = priority todo,
                      todo_id = new_todo_id\<rparr>
      in (new_todo, todos @ [new_todo]))"

text \<open>The route as a client sees it: validation first, then the handler.\<close>

definition post_todos :: "Todo list \<Rightarrow> TodoCreate_body \<Rightarrow> (error + Todo) \<times> Todo list" where
  "post_todos todos body =
     (case validate_TodoCreate body of
        Inl e \<Rightarrow> (Inl e, todos)
      | Inr todo \<Rightarrow> (let (new_todo, todos') = create_todo todos todo in (Inr new_todo, todos')))"

text \<open>
  \<^verbatim>\<open>PUT /todos/{todo_id}\<close>: the loop stops at the first record whose id matches,
  overwrites in place the fields the patch holds, and returns that record; when the
  loop runs out it raises 404.
\<close>

fun update_todo :: "Todo list \<Rightarrow> int \<Rightarrow> TodoUpdate \<Rightarrow> (error + Todo) \<times> Todo list" where
  "update_todo [] tid updated_todo = (Inl (HTTPException 404 ''Todo not found''), [])"
| "update_todo (todo # rest) tid updated_todo =
     (if todo_id todo = tid then
        (let todo1 = (case todo_name' updated_todo of
                        None \<Rightarrow> todo | Some v \<Rightarrow> todo\<lparr>todo_name := v\<rparr>);
             todo2 = (case todo_description' updated_todo of
                        None \<Rightarrow> todo1 | Some v \<Rightarrow> todo1\<lparr>todo_description := v\<rparr>);
             todo3 = (case priority' updated_todo of
                        None \<Rightarrow> todo2 | Some v \<Rightarrow> todo2\<lparr>priority := v\<rparr>)
         in (Inr todo3, todo3 # rest))
      else
        (let (outcome, rest') = update_todo rest tid updated_todo
         in (outcome, todo # rest')))"

text \<open>
  \<^verbatim>\<open>DELETE /todos/{todo_id}\<close>: the loop walks \<^verbatim>\<open>enumerate(all_todos)\<close>; at the first
  match it pops that index and returns \<^verbatim>\<open>{"deleted": deleted_todo}\<close> (a dictionary
  with one key, here a one-element association list); when the loop runs out it
  raises 404.
\<close>

fun delete_loop ::
  "Todo list \<Rightarrow> (nat \<times> Todo) list \<Rightarrow> int \<Rightarrow> (error + (string \<times> Todo) list) \<times> Todo list" where
  "delete_loop todos [] tid = (Inl (HTTPException 404 ''Todo not found''), todos)"
| "delete_loop todos ((index, todo) # rest) tid =
     (if todo_id todo = tid then
        (case py_pop todos index of
           Inl e \<Rightarrow> (Inl e, todos)
         | Inr (deleted_todo, todos') \<Rightarrow> (Inr [(''deleted'', deleted_todo)], todos'))
      else delete_loop todos rest tid)"

definition delete_todo :: "Todo list \<Rightarrow> int \<Rightarrow> (error + (string \<times> Todo) list) \<times> Todo list" where
  "delete_todo todos tid = delete_loop todos (enumerate 0 todos) tid"

section \<open>The item service: properties\<close>

lemma py_index_in_range:
  "0 \<le> i \<Longrightarrow> i < int (length xs) \<Longrightarrow> py_index xs i = Inr (xs ! nat i)"
  by (simp add: py_index_def)

lemma get_item_in_range:
  "0 \<le> item_id \<Longrightarrow> item_id < int (length items) \<Longrightarrow> get_item items item_id = Inr (items ! nat item_id)"
  by (simp add: get_item_def py_index_in_range)

lemma get_item_too_large:
  "int (length items) \<le> item_id \<Longrightarrow> get_item items item_id = Inl (HTTPException 404 ''Item not found'')"
  by (simp add: get_item_def)

lemma get_item_below_range:
  "item_id < - int (length items) \<Longrightarrow> get_item items item_id = Inl IndexError"
  by (simp add: get_item_def py_index_def)

text \<open>
  Claim C7. \<open>create_item\<close> appends the item at the end and answers with the whole
  updated list: the response and the new store are both \<open>items @ [item]\<close>, so the
  last element of the response is the created item, the length grows by exactly one,
  and the items stored before keep their positions.
\<close>

theorem create_item_appends:
  "create_item items item = (items @ [item], items @ [item])
   \<and> last (fst (create_item items item)) = item
   \<and> length (snd (create_item items item)) = length items + 1
   \<and> take (length items) (snd (create_item items item)) = items"
  by (simp add: create_item_def Let_def)

text \<open>
  Claim C10. On a non-empty store of length \<open>n\<close>, an \<open>item_id\<close> with
  \<open>-n \<le> item_id < 0\<close> passes the only test (\<open>item_id < n\<close>) and the handler answers
  with the element at position \<open>n + item_id\<close>, as Python's negative indexing reads it;
  no error is raised.
\<close>

theorem get_item_negative_index:
  "items \<noteq> [] \<Longrightarrow> - int (length items) \<le> item_id \<Longrightarrow> item_id < 0 \<Longrightarrow>
   get_item items item_id = Inr (items ! nat (int (length items) + item_id))"
  by (simp add: get_item_def py_index_def add.commute)

theorem get_item_negative_index_witness:
  "get_item [\<lparr>text = Some ''a'', is_done = False\<rparr>, \<lparr>text = Some ''b'', is_done = True\<rparr>,
             \<lparr>text = None, is_done = False\<rparr>] (- 2)
     = Inr \<lparr>text = Some ''b'', is_done = True\<rparr>"
  using get_item_negative_index
    [of "[\<lparr>text = Some ''a'', is_done = False\<rparr>, \<lparr>text = Some ''b'', is_done = True\<rparr>,
          \<lparr>text = None, is_done = False\<rparr>]" "- 2"]
  by simp

text \<open>
  Claim C1. The claim asks for the 404 "Item not found" on every negative
  \<open>item_id\<close>. On the store holding one item, \<open>item_id = -1\<close> is answered with that
  item instead: the handler's range check has no lower bound.
\<close>

theorem get_item_minus_one_returns_item:
  "get_item [\<lparr>text = Some ''a'', is_done = False\<rparr>] (- 1) = Inr \<lparr>text = Some ''a'', is_done = False\<rparr>
   \<and> get_item [\<lparr>text = Some ''a'', is_done = False\<rparr>] (- 1)
       \<noteq> Inl (HTTPException 404 ''Item not found'')"
  by (simp add: get_item_def py_index_def)

text \<open>
  Claim C2, as the code has it. \<open>list_items\<close> always answers with a prefix of the
  store in insertion order. For \<open>limit \<ge> 0\<close> the prefix has exactly
  \<open>min limit (length items)\<close> elements, so never more than \<open>limit\<close>; for a negative
  \<open>limit\<close> the slice drops the last \<open>-limit\<close> items and the prefix has
  \<open>max 0 (length items + limit)\<close> elements.
\<close>

theorem list_items_prefix:
  "list_items items limit =
     take (nat (if 0 \<le> limit then min limit (int (length items))
                else max 0 (int (length items) + limit))) items
   \<and> (0 \<le> limit \<longrightarrow> int (length (list_items items limit)) = min limit (int (length items))
        \<and> int (length (list_items items limit)) \<le> limit)"
  by (auto simp add: list_items_def py_slice_def adjust_index_def Let_def min_def max_def add.commute)

theorem list_items_prefix_witness:
  "list_items [\<lparr>text = Some ''a'', is_done = False\<rparr>, \<lparr>text = Some ''b'', is_done = False\<rparr>,
               \<lparr>text = Some ''c'', is_done = True\<rparr>] 2
     = [\<lparr>text = Some ''a'', is_done = False\<rparr>, \<lparr>text = Some ''b'', is_done = False\<rparr>]
   \<and> int (length (list_items [\<lparr>text = Some ''a'', is_done = False\<rparr>,
                                \<lparr>text = Some ''b'', is_done = False\<rparr>,
                                \<lparr>text = Some ''c'', is_done = True\<rparr>] 2)) = 2"
  using list_items_prefix
    [of "[\<lparr>text = Some ''a'', is_done = False\<rparr>, \<lparr>text = Some ''b'', is_done = False\<rparr>,
          \<lparr>text = Some ''c'', is_done = True\<rparr>]" 2]
  by simp

text \<open>
  Claim C2, as the specification states it, fails at \<open>limit = -1\<close> on a store of two
  items: one item comes back, which is more than \<open>limit\<close> and is not
  \<open>min limit (length items)\<close>.
\<close>

theorem list_items_negative_limit:
  "list_items [\<lparr>text = Some ''a'', is_done = False\<rparr>, \<lparr>text = Some ''b'', is_done = False\<rparr>] (- 1)
     = [\<lparr>text = Some ''a'', is_done = False\<rparr>]
   \<and> \<not> int (length (list_items [\<lparr>text = Some ''a'', is_done = False\<rparr>,
                                   \<lparr>text = Some ''b'', is_done = False\<rparr>] (- 1))) \<le> - 1
   \<and> int (length (list_items [\<lparr>text = Some ''a'', is_done = False\<rparr>,
                                   \<lparr>text = Some ''b'', is_done = False\<rparr>] (- 1)))
       \<noteq> min (- 1) (int (length [\<lparr>text = Some ''a'', is_done = False\<rparr>,
                                   \<lparr>text = Some ''b'', is_done = False\<rparr>]))"
  by (simp add: list_items_def py_slice_def adjust_index_def)

section \<open>The todo service: properties\<close>

subsection \<open>The running maximum is the maximum\<close>

lemma Max_insert_max:
  "finite S \<Longrightarrow> Max (insert (max m x) S) = Max (insert m (insert (x::int) S))"
  by (cases "S = {}") (simp_all add: max.assoc)

lemma max_loop_Max: "max_loop m xs = Max (insert m (set xs))"
proof (induction xs arbitrary: m)
  case Nil
  show ?case by simp
next
  case (Cons x xs)
  have "(if m < x then x else m) = max m x" by (simp add: max_def)
  then have "max_loop m (x # xs) = Max (insert (max m x) (set xs))"
    using Cons.IH [of "max m x"] by simp
  also have "\<dots> = Max (insert m (insert x (set xs)))"
    by (rule Max_insert_max) simp
  finally show ?case by simp
qed

lemma py_max_default_Max:
  "py_max_default xs d = (if xs = [] then d else Max (set xs))"
  by (cases xs) (simp_all add: py_max_default_def max_loop_Max)

subsection \<open>The update loop\<close>

lemma update_todo_no_match:
  "tid \<notin> todo_id ` set todos \<Longrightarrow>
   update_todo todos tid u = (Inl (HTTPException 404 ''Todo not found''), todos)"
  by (induction todos) simp_all

lemma update_todo_head:
  "todo_id t = tid \<Longrightarrow>
   update_todo (t # post) tid u =
     (Inr \<lparr>todo_name = (case todo_name' u of None \<Rightarrow> todo_name t | Some v \<Rightarrow> v),
            todo_description = (case todo_description' u of None \<Rightarrow> todo_description t | Some v \<Rightarrow> v),
            priority = (case priority' u of None \<Rightarrow> priority t | Some v \<Rightarrow> v),
            todo_id = todo_id t\<rparr>,
      \<lparr>todo_name = (case todo_name' u of None \<Rightarrow> todo_name t | Some v \<Rightarrow> v),
            todo_description = (case todo_description' u of None \<Rightarrow> todo_description t | Some v \<Rightarrow> v),
            priority = (case priority' u of None \<Rightarrow> priority t | Some v \<Rightarrow> v),
            todo_id = todo_id t\<rparr> # post)"
  by (cases t; cases "todo_name' u"; cases "todo_description' u"; cases "priority' u")
     (simp_all add: Let_def)

lemma update_todo_skip:
  "todo_id p \<noteq> tid \<Longrightarrow> update_todo rest tid u = (outcome, rest') \<Longrightarrow>
   update_todo (p # rest) tid u = (outcome, p # rest')"
  by simp

lemma update_todo_first_match:
  "tid \<notin> todo_id ` set pre \<Longrightarrow> todo_id t = tid \<Longrightarrow>
   update_todo (pre @ t # post) tid u =
     (Inr \<lparr>todo_name = (case todo_name' u of None \<Rightarrow> todo_name t | Some v \<Rightarrow> v),
            todo_description = (case todo_description' u of None \<Rightarrow> todo_description t | Some v \<Rightarrow> v),
            priority = (case priority' u of None \<Rightarrow> priority t | Some v \<Rightarrow> v),
            todo_id = todo_id t\<rparr>,
      pre @ \<lparr>todo_name = (case todo_name' u of None \<Rightarrow> todo_name t | Some v \<Rightarrow> v),
            todo_description = (case todo_description' u of None \<Rightarrow> todo_description t | Some v \<Rightarrow> v),
            priority = (case priority' u of None \<Rightarrow> priority t | Some v \<Rightarrow> v),
            todo_id = todo_id t\<rparr> # post)"
proof (induction pre)
  case Nil
  from Nil.prems(2) show ?case
    unfolding append_Nil by (rule update_todo_head)
next
  case (Cons p pre)
  from Cons.prems have ne: "todo_id p \<noteq> tid" and np: "tid \<notin> todo_id ` set pre" by auto
  from np Cons.prems(2) have ih: "update_todo (pre @ t # post) tid u =
     (Inr \<lparr>todo_name = (case todo_name' u of None \<Rightarrow> todo_name t | Some v \<Rightarrow> v),
            todo_description = (case todo_description' u of None \<Rightarrow> todo_description t | Some v \<Rightarrow> v),
            priority = (case priority' u of None \<Rightarrow> priority t | Some v \<Rightarrow> v),
            todo_id = todo_id t\<rparr>,
      pre @ \<lparr>todo_name = (case todo_name' u of None \<Rightarrow> todo_name t | Some v \<Rightarrow> v),
            todo_description = (case todo_description' u of None \<Rightarrow> todo_description t | Some v \<Rightarrow> v),
            priority = (case priority' u of None \<Rightarrow> priority t | Some v \<Rightarrow> v),
            todo_id = todo_id t\<rparr> # post)"
    by (rule Cons.IH)
  show ?case
    unfolding append_Cons by (rule update_todo_skip [OF ne ih])
qed

subsection \<open>The delete loop\<close>

lemma delete_loop_no_match:
  "tid \<notin> todo_id ` set xs \<Longrightarrow>
   delete_loop todos (enumerate k xs) tid = (Inl (HTTPException 404 ''Todo not found''), todos)"
  by (induction xs arbitrary: k) simp_all

lemma py_pop_middle: "py_pop (ys @ t # post) (length ys) = Inr (t, ys @ post)"
  by (simp add: py_pop_def)

lemma delete_loop_first_match:
  "tid \<notin> todo_id ` set pre \<Longrightarrow> todo_id t = tid \<Longrightarrow>
   delete_loop (ys @ pre @ t # post) (enumerate (length ys) (pre @ t # post)) tid
     = (Inr [(''deleted'', t)], ys @ pre @ post)"
proof (induction pre arbitrary: ys)
  case Nil
  then show ?case by (simp add: py_pop_middle)
next
  case (Cons p pre)
  from Cons.prems have np: "tid \<notin> todo_id ` set pre" and ne: "todo_id p \<noteq> tid" by auto
  have "delete_loop (ys @ (p # pre) @ t # post) (enumerate (length ys) ((p # pre) @ t # post)) tid
      = delete_loop ((ys @ [p]) @ pre @ t # post) (enumerate (length (ys @ [p])) (pre @ t # post)) tid"
    using ne by simp
  also have "\<dots> = (Inr [(''deleted'', t)], (ys @ [p]) @ pre @ post)"
    using np Cons.prems(2) by (rule Cons.IH)
  finally show ?case by simp
qed

text \<open>Every store that holds a record with the given id splits at the first such record.\<close>

lemma first_match_split:
  "tid \<in> todo_id ` set todos \<Longrightarrow>
   \<exists>pre t post. todos = pre @ t # post \<and> todo_id t = tid \<and> tid \<notin> todo_id ` set pre"
proof (induction todos)
  case Nil
  then show ?case by simp
next
  case (Cons a todos)
  show ?case
  proof (cases "todo_id a = tid")
    case True
    then have "a # todos = [] @ a # todos \<and> todo_id a = tid \<and> tid \<notin> todo_id ` set []"
      by simp
    then show ?thesis by (intro exI)
  next
    case False
    with Cons.prems have "tid \<in> todo_id ` set todos" by auto
    then have "\<exists>pre t post. todos = pre @ t # post \<and> todo_id t = tid \<and> tid \<notin> todo_id ` set pre"
      by (rule Cons.IH)
    then obtain pre t post where
      d: "todos = pre @ t # post" "todo_id t = tid" "tid \<notin> todo_id ` set pre"
      by (elim exE conjE)
    from d False have "a # todos = (a # pre) @ t # post \<and> todo_id t = tid
        \<and> tid \<notin> todo_id ` set (a # pre)"
      by auto
    then show ?thesis by (intro exI)
  qed
qed

subsection \<open>Creating\<close>

lemma create_todo_id_above:
  assumes "x \<in> set todos"
  shows "todo_id x < todo_id (fst (create_todo todos todo))"
proof -
  from assms have ne: "todos \<noteq> []" by auto
  have "todo_id x \<le> Max (todo_id ` set todos)"
    using assms by (intro Max_ge) simp_all
  moreover have "todo_id (fst (create_todo todos todo)) = Max (set (map todo_id todos)) + 1"
    using ne by (simp add: create_todo_def Let_def py_max_default_Max)
  ultimately show ?thesis by simp
qed

lemma create_todo_ids:
  "map todo_id (snd (create_todo todos todo)) =
     map todo_id todos @ [todo_id (fst (create_todo todos todo))]"
  by (simp add: create_todo_def Let_def)

text \<open>
  Claim C3. \<open>create_todo\<close> gives the new record the id
  \<^verbatim>\<open>max(existing ids, default 0) + 1\<close>: one more than the largest stored id, and 1
  on an empty store (as after every todo was deleted). The record carries the fields
  of the request and is appended to the store.
\<close>

theorem create_todo_assigns_next_id:
  "create_todo todos todo =
     (\<lparr>todo_name = todo_name todo, todo_description = todo_description todo,
       priority = priority todo,
       todo_id = (if todos = [] then 0 else Max (todo_id ` set todos)) + 1\<rparr>,
      todos @ [\<lparr>todo_name = todo_name todo, todo_description = todo_description todo,
                priority = priority todo,
                todo_id = (if todos = [] then 0 else Max (todo_id ` set todos)) + 1\<rparr>])
   \<and> todo_id (fst (create_todo [] todo)) = 1"
  by (simp add: create_todo_def Let_def py_max_default_Max)

text \<open>
  Claim C6. A body whose \<open>todo_name\<close> is shorter than 3 or longer than 512 characters
  is rejected with a validation error, whatever its other fields, and the store is
  left as it was. A body whose name has between 3 and 512 characters (the two
  boundary lengths included) and that holds a description is accepted: the route
  answers with the record \<open>create_todo\<close> builds from it.
\<close>

theorem todo_name_length_validated:
  "(body_todo_name body = Some name \<and> (length name < 3 \<or> 512 < length name) \<longrightarrow>
      validate_TodoCreate body = Inl RequestValidationError
      \<and> post_todos todos body = (Inl RequestValidationError, todos))
   \<and> (body_todo_name body = Some name \<and> 3 \<le> length name \<and> length name \<le> 512
        \<and> body_todo_description body = Some description \<longrightarrow>
      post_todos todos body =
        (Inr (fst (create_todo todos
                \<lparr>todo_name = name, todo_description = description,
                  priority = (case body_priority body of None \<Rightarrow> low | Some p \<Rightarrow> p)\<rparr>)),
         snd (create_todo todos
                \<lparr>todo_name = name, todo_description = description,
                  priority = (case body_priority body of None \<Rightarrow> low | Some p \<Rightarrow> p)\<rparr>)))"
  by (auto simp add: post_todos_def validate_TodoCreate_def check_length_def split: prod.splits)

theorem todo_name_length_validated_witness:
  "post_todos all_todos
      \<lparr>body_todo_name = Some ''ab'', body_todo_description = Some ''d'', body_priority = None\<rparr>
     = (Inl RequestValidationError, all_todos)
   \<and> post_todos all_todos
      \<lparr>body_todo_name = Some (replicate 513 CHR ''x''), body_todo_description = Some ''d'',
        body_priority = Some high\<rparr>
     = (Inl RequestValidationError, all_todos)
   \<and> fst (post_todos all_todos
      \<lparr>body_todo_name = Some ''abc'', body_todo_description = Some ''d'', body_priority = None\<rparr>)
     = Inr \<lparr>todo_name = ''abc'', todo_description = ''d'', priority = low, todo_id = 6\<rparr>
   \<and> fst (post_todos all_todos
      \<lparr>body_todo_name = Some (replicate 512 CHR ''x''), body_todo_description = Some ''d'',
        body_priority = Some high\<rparr>)
     = Inr \<lparr>todo_name = replicate 512 CHR ''x'', todo_description = ''d'', priority = high,
            todo_id = 6\<rparr>"
proof -
  have id6: "\<And>c. fst (create_todo all_todos c)
      = \<lparr>todo_name = todo_name c, todo_description = todo_description c, priority = priority c,
         todo_id = 6\<rparr>"
    by (simp add: create_todo_def all_todos_def py_max_default_def Let_def)
  from todo_name_length_validated
    [of "\<lparr>body_todo_name = Some ''ab'', body_todo_description = Some ''d'', body_priority = None\<rparr>"
        "''ab''" all_todos "''d''"]
  have a: "post_todos all_todos
      \<lparr>body_todo_name = Some ''ab'', body_todo_description = Some ''d'', body_priority = None\<rparr>
     = (Inl RequestValidationError, all_todos)"
    by simp
  from todo_name_length_validated
    [of "\<lparr>body_todo_name = Some (replicate 513 CHR ''x''), body_todo_description = Some ''d'',
          body_priority = Some high\<rparr>"
        "replicate 513 CHR ''x''" all_todos "''d''"]
  have b: "post_todos all_todos
      \<lparr>body_todo_name = Some (replicate 513 CHR ''x''), body_todo_description = Some ''d'',
        body_priority = Some high\<rparr>
     = (Inl RequestValidationError, all_todos)"
    by simp
  from todo_name_length_validated
    [of "\<lparr>body_todo_name = Some ''abc'', body_todo_description = Some ''d'', body_priority = None\<rparr>"
        "''abc''" all_todos "''d''"]
  have c: "fst (post_todos all_todos
      \<lparr>body_todo_name = Some ''abc'', body_todo_description = Some ''d'', body_priority = None\<rparr>)
     = Inr \<lparr>todo_name = ''abc'', todo_description = ''d'', priority = low, todo_id = 6\<rparr>"
    by (simp add: id6)
  from todo_name_length_validated
    [of "\<lparr>body_todo_name = Some (replicate 512 CHR ''x''), body_todo_description = Some ''d'',
          body_priority = Some high\<rparr>"
        "replicate 512 CHR ''x''" all_todos "''d''"]
  have d: "fst (post_todos all_todos
      \<lparr>body_todo_name = Some (replicate 512 CHR ''x''), body_todo_description = Some ''d'',
        body_priority = Some high\<rparr>)
     = Inr \<lparr>todo_name = replicate 512 CHR ''x'', todo_description = ''d'', priority = high,
            todo_id = 6\<rparr>"
    by (simp add: id6)
  from a b c d show ?thesis by (intro conjI)
qed

subsection \<open>Updating\<close>

lemma update_todo_keeps_ids:
  "map todo_id (snd (update_todo todos tid u)) = map todo_id todos"
proof (cases "tid \<in> todo_id ` set todos")
  case False
  then show ?thesis by (simp add: update_todo_no_match)
next
  case True
  then have "\<exists>pre t post. todos = pre @ t # post \<and> todo_id t = tid \<and> tid \<notin> todo_id ` set pre"
    by (rule first_match_split)
  then obtain pre t post where
    d: "todos = pre @ t # post" "todo_id t = tid" "tid \<notin> todo_id ` set pre"
    by (elim exE conjE)
  from d(3,2) show ?thesis
    unfolding d(1) by (simp add: update_todo_first_match)
qed

text \<open>
  Claim C5. When no record has the given id, \<open>update_todo\<close> raises the 404 and the
  store is unchanged. Otherwise, with \<open>t\<close> the first record that has the id, the
  record that replaces \<open>t\<close> at its position holds the patch's value in every field
  the patch provides and \<open>t\<close>'s own value in every other field, it keeps \<open>t\<close>'s id,
  and it is the response; no other record changes. In particular a patch that holds
  only \<open>priority\<close> changes only the priority.
\<close>

theorem update_todo_overwrites_present_fields:
  "(tid \<notin> todo_id ` set todos \<longrightarrow>
      update_todo todos tid u = (Inl (HTTPException 404 ''Todo not found''), todos))
   \<and> (todos = pre @ t # post \<and> todo_id t = tid \<and> tid \<notin> todo_id ` set pre \<longrightarrow>
      update_todo todos tid u =
        (Inr \<lparr>todo_name = (case todo_name' u of None \<Rightarrow> todo_name t | Some v \<Rightarrow> v),
               todo_description =
                 (case todo_description' u of None \<Rightarrow> todo_description t | Some v \<Rightarrow> v),
               priority = (case priority' u of None \<Rightarrow> priority t | Some v \<Rightarrow> v),
               todo_id = todo_id t\<rparr>,
         pre @ \<lparr>todo_name = (case todo_name' u of None \<Rightarrow> todo_name t | Some v \<Rightarrow> v),
                 todo_description =
                   (case todo_description' u of None \<Rightarrow> todo_description t | Some v \<Rightarrow> v),
                 priority = (case priority' u of None \<Rightarrow> priority t | Some v \<Rightarrow> v),
                 todo_id = todo_id t\<rparr> # post))
   \<and> (todos = pre @ t # post \<and> todo_id t = tid \<and> tid \<notin> todo_id ` set pre \<longrightarrow>
      update_todo todos tid \<lparr>todo_name' = None, todo_description' = None, priority' = Some p\<rparr> =
        (Inr \<lparr>todo_name = todo_name t, todo_description = todo_description t,
               priority = p, todo_id = todo_id t\<rparr>,
         pre @ \<lparr>todo_name = todo_name t, todo_description = todo_description t,
                 priority = p, todo_id = todo_id t\<rparr> # post))"
proof (intro conjI impI)
  assume "tid \<notin> todo_id ` set todos"
  then show "update_todo todos tid u = (Inl (HTTPException 404 ''Todo not found''), todos)"
    by (rule update_todo_no_match)
next
  assume a: "todos = pre @ t # post \<and> todo_id t = tid \<and> tid \<notin> todo_id ` set pre"
  then have "tid \<notin> todo_id ` set pre" and "todo_id t = tid" by simp_all
  then show "update_todo todos tid u =
        (Inr \<lparr>todo_name = (case todo_name' u of None \<Rightarrow> todo_name t | Some v \<Rightarrow> v),
               todo_description =
                 (case todo_description' u of None \<Rightarrow> todo_description t | Some v \<Rightarrow> v),
               priority = (case priority' u of None \<Rightarrow> priority t | Some v \<Rightarrow> v),
               todo_id = todo_id t\<rparr>,
         pre @ \<lparr>todo_name = (case todo_name' u of None \<Rightarrow> todo_name t | Some v \<Rightarrow> v),
                 todo_description =
                   (case todo_description' u of None \<Rightarrow> todo_description t | Some v \<Rightarrow> v),
                 priority = (case priority' u of None \<Rightarrow> priority t | Some v \<Rightarrow> v),
                 todo_id = todo_id t\<rparr> # post)"
    unfolding conjunct1 [OF a] by (rule update_todo_first_match)
next
  assume a: "todos = pre @ t # post \<and> todo_id t = tid \<and> tid \<notin> todo_id ` set pre"
  then have "tid \<notin> todo_id ` set pre" and "todo_id t = tid" by simp_all
  then show "update_todo todos tid \<lparr>todo_name' = None, todo_description' = None, priority' = Some p\<rparr> =
        (Inr \<lparr>todo_name = todo_name t, todo_description = todo_description t,
               priority = p, todo_id = todo_id t\<rparr>,
         pre @ \<lparr>todo_name = todo_name t, todo_description = todo_description t,
                 priority = p, todo_id = todo_id t\<rparr> # post)"
    unfolding conjunct1 [OF a]
    using update_todo_first_match
      [of tid pre t post "\<lparr>todo_name' = None, todo_description' = None, priority' = Some p\<rparr>"]
    by simp
qed

theorem update_todo_overwrites_present_fields_witness:
  "update_todo all_todos 9 \<lparr>todo_name' = Some ''Walk'', todo_description' = None, priority' = None\<rparr>
     = (Inl (HTTPException 404 ''Todo not found''), all_todos)
   \<and> update_todo all_todos 2 \<lparr>todo_name' = Some ''Write'', todo_description' = None, priority' = Some high\<rparr>
     = (Inr \<lparr>todo_name = ''Write'', todo_description = ''Library'', priority = high, todo_id = 2\<rparr>,
        [\<lparr>todo_name = ''Exercise'', todo_description = ''Gym'', priority = medium, todo_id = 1\<rparr>,
         \<lparr>todo_name = ''Write'', todo_description = ''Library'', priority = high, todo_id = 2\<rparr>,
         \<lparr>todo_name = ''Shop'', todo_description = ''Mall'', priority = high, todo_id = 3\<rparr>,
         \<lparr>todo_name = ''Study'', todo_description = ''College'', priority = medium, todo_id = 4\<rparr>,
         \<lparr>todo_name = ''Meditate'', todo_description = ''Session'', priority = low, todo_id = 5\<rparr>])
   \<and> update_todo all_todos 2 \<lparr>todo_name' = None, todo_description' = None, priority' = Some medium\<rparr>
     = (Inr \<lparr>todo_name = ''Read'', todo_description = ''Library'', priority = medium, todo_id = 2\<rparr>,
        [\<lparr>todo_name = ''Exercise'', todo_description = ''Gym'', priority = medium, todo_id = 1\<rparr>,
         \<lparr>todo_name = ''Read'', todo_description = ''Library'', priority = medium, todo_id = 2\<rparr>,
         \<lparr>todo_name = ''Shop'', todo_description = ''Mall'', priority = high, todo_id = 3\<rparr>,
         \<lparr>todo_name = ''Study'', todo_description = ''College'', priority = medium, todo_id = 4\<rparr>,
         \<lparr>todo_name = ''Meditate'', todo_description = ''Session'', priority = low, todo_id = 5\<rparr>])"
  using update_todo_overwrites_present_fields
    [of 9 all_todos "\<lparr>todo_name' = Some ''Walk'', todo_description' = None, priority' = None\<rparr>"
        "[]" "\<lparr>todo_name = ''Exercise'', todo_description = ''Gym'', priority = medium, todo_id = 1\<rparr>"
        "[]" medium]
    update_todo_overwrites_present_fields
    [of 2 all_todos "\<lparr>todo_name' = Some ''Write'', todo_description' = None, priority' = Some high\<rparr>"
        "[\<lparr>todo_name = ''Exercise'', todo_description = ''Gym'', priority = medium, todo_id = 1\<rparr>]"
        "\<lparr>todo_name = ''Read'', todo_description = ''Library'', priority = low, todo_id = 2\<rparr>"
        "[\<lparr>todo_name = ''Shop'', todo_description = ''Mall'', priority = high, todo_id = 3\<rparr>,
          \<lparr>todo_name = ''Study'', todo_description = ''College'', priority = medium, todo_id = 4\<rparr>,
          \<lparr>todo_name = ''Meditate'', todo_description = ''Session'', priority = low, todo_id = 5\<rparr>]"
        medium]
  by (simp add: all_todos_def)

subsection \<open>Deleting\<close>

lemma delete_todo_store:
  "snd (delete_todo todos tid) = todos
   \<or> (\<exists>pre t post. todos = pre @ t # post \<and> snd (delete_todo todos tid) = pre @ post)"
proof (cases "tid \<in> todo_id ` set todos")
  case False
  then have "delete_todo todos tid = (Inl (HTTPException 404 ''Todo not found''), todos)"
    unfolding delete_todo_def by (rule delete_loop_no_match)
  then show ?thesis by simp
next
  case True
  then have "\<exists>pre t post. todos = pre @ t # post \<and> todo_id t = tid \<and> tid \<notin> todo_id ` set pre"
    by (rule first_match_split)
  then obtain pre t post where
    d: "todos = pre @ t # post" "todo_id t = tid" "tid \<notin> todo_id ` set pre"
    by (elim exE conjE)
  from delete_loop_first_match [OF d(3,2), of "[]" post]
  have "delete_todo todos tid = (Inr [(''deleted'', t)], pre @ post)"
    by (simp add: delete_todo_def d(1))
  with d(1) have "todos = pre @ t # post \<and> snd (delete_todo todos tid) = pre @ post"
    by simp
  then have "\<exists>pre t post. todos = pre @ t # post \<and> snd (delete_todo todos tid) = pre @ post"
    by (intro exI)
  then show ?thesis by (rule disjI2)
qed

text \<open>
  Claim C4. When no stored record has the given id, \<open>delete_todo\<close> raises the 404
  "Todo not found" and the store it leaves is the store it was given: same length,
  same records, same order.
\<close>

theorem delete_todo_missing_id:
  "tid \<notin> todo_id ` set todos \<Longrightarrow>
   delete_todo todos tid = (Inl (HTTPException 404 ''Todo not found''), todos)"
  unfolding delete_todo_def by (rule delete_loop_no_match)

theorem delete_todo_missing_id_witness:
  "delete_todo all_todos 9 = (Inl (HTTPException 404 ''Todo not found''), all_todos)"
proof -
  have h: "9 \<notin> todo_id ` set all_todos" by (simp add: all_todos_def)
  show ?thesis by (rule delete_todo_missing_id [OF h])
qed

text \<open>
  Claim C8. When a stored record has the given id, \<open>delete_todo\<close> removes the first
  such record \<open>t\<close> (by \<open>first_match_split\<close> every such store is
  \<open>pre @ t # post\<close> with no match in \<open>pre\<close>): the store becomes \<open>pre @ post\<close>, so
  the remaining records keep their relative order, and the response is the
  dictionary \<^verbatim>\<open>{"deleted": t}\<close>.
\<close>

theorem delete_todo_removes_first_match:
  "todos = pre @ t # post \<Longrightarrow> todo_id t = tid \<Longrightarrow> tid \<notin> todo_id ` set pre \<Longrightarrow>
   delete_todo todos tid = (Inr [(''deleted'', t)], pre @ post)"
  using delete_loop_first_match [of tid pre t "[]" post]
  by (simp add: delete_todo_def)

theorem delete_todo_removes_first_match_witness:
  "delete_todo all_todos 3 =
     (Inr [(''deleted'',
            \<lparr>todo_name = ''Shop'', todo_description = ''Mall'', priority = high, todo_id = 3\<rparr>)],
      [\<lparr>todo_name = ''Exercise'', todo_description = ''Gym'', priority = medium, todo_id = 1\<rparr>,
       \<lparr>todo_name = ''Read'', todo_description = ''Library'', priority = low, todo_id = 2\<rparr>,
       \<lparr>todo_name = ''Study'', todo_description = ''College'', priority = medium, todo_id = 4\<rparr>,
       \<lparr>todo_name = ''Meditate'', todo_description = ''Session'', priority = low, todo_id = 5\<rparr>])"
  using delete_todo_removes_first_match
    [of all_todos
        "[\<lparr>todo_name = ''Exercise'', todo_description = ''Gym'', priority = medium, todo_id = 1\<rparr>,
          \<lparr>todo_name = ''Read'', todo_description = ''Library'', priority = low, todo_id = 2\<rparr>]"
        "\<lparr>todo_name = ''Shop'', todo_description = ''Mall'', priority = high, todo_id = 3\<rparr>"
        "[\<lparr>todo_name = ''Study'', todo_description = ''College'', priority = medium, todo_id = 4\<rparr>,
          \<lparr>todo_name = ''Meditate'', todo_description = ''Session'', priority = low, todo_id = 5\<rparr>]"
        3]
  by (simp add: all_todos_def)

subsection \<open>Ids stay pairwise distinct\<close>

text \<open>
  Claim C9. On a store whose ids are pairwise distinct, each of the three mutating
  handlers leaves a store whose ids are pairwise distinct: \<open>create_todo\<close> assigns an
  id strictly above every stored id, \<open>update_todo\<close> leaves the list of ids as it
  was, and \<open>delete_todo\<close> leaves the store alone or takes exactly one record out.
\<close>

theorem todo_ids_stay_distinct:
  assumes "distinct (map todo_id todos)"
  shows "distinct (map todo_id (snd (create_todo todos todo)))
    \<and> (\<forall>x \<in> set todos. todo_id x < todo_id (fst (create_todo todos todo)))
    \<and> map todo_id (snd (update_todo todos tid u)) = map todo_id todos
    \<and> distinct (map todo_id (snd (update_todo todos tid u)))
    \<and> (snd (delete_todo todos tid') = todos
        \<or> (\<exists>pre t post. todos = pre @ t # post \<and> snd (delete_todo todos tid') = pre @ post))
    \<and> distinct (map todo_id (snd (delete_todo todos tid')))"
proof (intro conjI ballI)
  fix x assume "x \<in> set todos"
  then show "todo_id x < todo_id (fst (create_todo todos todo))"
    by (rule create_todo_id_above)
next
  have "todo_id (fst (create_todo todos todo)) \<notin> set (map todo_id todos)"
    using create_todo_id_above [of _ todos todo] by fastforce
  with assms show "distinct (map todo_id (snd (create_todo todos todo)))"
    by (simp add: create_todo_ids)
next
  show "map todo_id (snd (update_todo todos tid u)) = map todo_id todos"
    by (rule update_todo_keeps_ids)
next
  from assms show "distinct (map todo_id (snd (update_todo todos tid u)))"
    by (simp add: update_todo_keeps_ids)
next
  show "snd (delete_todo todos tid') = todos
        \<or> (\<exists>pre t post. todos = pre @ t # post \<and> snd (delete_todo todos tid') = pre @ post)"
    by (rule delete_todo_store)
next
  from delete_todo_store [of todos tid']
  show "distinct (map todo_id (snd (delete_todo todos tid')))"
  proof
    assume "snd (delete_todo todos tid') = todos"
    with assms show ?thesis by simp
  next
    assume "\<exists>pre t post. todos = pre @ t # post \<and> snd (delete_todo todos tid') = pre @ post"
    then obtain pre t post where
      "todos = pre @ t # post" "snd (delete_todo todos tid') = pre @ post"
      by (elim exE conjE)
    with assms show ?thesis by simp
  qed
qed

theorem todo_ids_stay_distinct_witness:
  "distinct (map todo_id all_todos)
   \<and> distinct (map todo_id (snd (create_todo all_todos
        \<lparr>todo_name = ''Walk'', todo_description = ''Park'', priority = low\<rparr>)))
   \<and> map todo_id (snd (update_todo all_todos 2
        \<lparr>todo_name' = None, todo_description' = None, priority' = Some high\<rparr>)) = [1, 2, 3, 4, 5]
   \<and> distinct (map todo_id (snd (delete_todo all_todos 3)))"
proof -
  have h: "distinct (map todo_id all_todos)" by (simp add: all_todos_def)
  have ids: "map todo_id all_todos = [1, 2, 3, 4, 5]" by (simp add: all_todos_def)
  from todo_ids_stay_distinct
    [OF h, of "\<lparr>todo_name = ''Walk'', todo_description = ''Park'', priority = low\<rparr>" 2
        "\<lparr>todo_name' = None, todo_description' = None, priority' = Some high\<rparr>" 3]
  show ?thesis using h ids by simp
qed

end
